theory Spec2Isabelle
  imports Main "HOL-Library.Sublist" "HOL-Library.Word"
begin

section \<open>Python values, exceptions and the outside world\<close>

text \<open>
  The two scripts (\<^verbatim>\<open>projects/01.me/me_with_tools.py\<close> and
  \<^verbatim>\<open>LangChain-Academy/module-1/studio/router.py\<close>) drive a hosted language model.
  Everything the scripts compute themselves is defined here as a function; everything
  they obtain from a library or from the network (the model's replies, the HTTP POST,
  \<^verbatim>\<open>json.loads\<close>, \<^verbatim>\<open>json.dumps\<close>, the PDF reader, the file system) is a field of
  the record \<open>env\<close>, so that every theorem holds for all behaviours of those parts.
\<close>

text \<open>
  Python objects as far as the scripts handle them. \<open>PFloat\<close> carries the IEEE bit
  pattern only. \<open>PFunc\<close> is a function and \<open>PClass\<close> a class defined in the module,
  \<open>PInst\<close> an instance of such a class, \<open>PExt\<close> an object of an imported library
  (module, class or function).
\<close>

datatype pyval =
    PNone
  | PBool bool
  | PInt int
  | PFloat "64 word"
  | PStr string
  | PList "pyval list"
  | PDict "(string \<times> pyval) list"
  | PFunc string
  | PClass string
  | PInst string
  | PExt string

text \<open>
  Exceptions. \<open>TypeError\<close> and \<open>IndexError\<close> are raised by the interpreter on the
  scripts' own expressions; \<open>LibError\<close> is any exception raised inside a library
  (\<^verbatim>\<open>JSONDecodeError\<close>, \<^verbatim>\<open>ConnectionError\<close>, \<^verbatim>\<open>FileNotFoundError\<close>, ...).
\<close>

datatype error = TypeError | IndexError | LibError string

text \<open>Python's truth value testing, as used by \<^verbatim>\<open>if tool\<close> and \<^verbatim>\<open>if text\<close>.\<close>

fun truthy :: "pyval \<Rightarrow> bool" where
  "truthy PNone = False"
| "truthy (PBool b) = b"
| "truthy (PInt i) = (i \<noteq> 0)"
| "truthy (PFloat w) = (w \<noteq> 0 \<and> w \<noteq> 0x8000000000000000)"
| "truthy (PStr s) = (s \<noteq> [])"
| "truthy (PList xs) = (xs \<noteq> [])"
| "truthy (PDict kvs) = (kvs \<noteq> [])"
| "truthy (PFunc f) = True"
| "truthy (PClass c) = True"
| "truthy (PInst c) = True"
| "truthy (PExt x) = True"

subsection \<open>Messages, tool calls and model responses\<close>

text \<open>\<^verbatim>\<open>tool_call.id\<close>, \<^verbatim>\<open>tool_call.function.name\<close>, \<^verbatim>\<open>tool_call.function.arguments\<close>.\<close>

record tool_call =
  call_id :: string
  function_name :: string
  function_arguments :: string

text \<open>
  The message object of a completion choice: \<^verbatim>\<open>content\<close> and \<^verbatim>\<open>tool_calls\<close> are both
  optional in the SDK's type.
\<close>

record chat_message =
  content :: "string option"
  tool_calls :: "tool_call list option"

record choice =
  finish_reason :: string
  cmessage :: chat_message

record response =
  choices :: "choice list"

text \<open>
  An entry of the \<^verbatim>\<open>messages\<close> list: a dict written by the script (or supplied in the
  history), or a message object taken from a response.
\<close>

datatype msg = MDict "(string \<times> pyval) list" | MObj chat_message

record request =
  req_model :: string
  req_messages :: "msg list"
  req_tools :: pyval

text \<open>The observable effects of a run, in order.\<close>

datatype event =
    Printed string
  | Posted string "(string \<times> pyval) list"
  | ApiCall request "error + response"

text \<open>The persona object: the fields \<^verbatim>\<open>__init__\<close> assigns.\<close>

record me =
  name :: string
  summary :: string
  bio :: string

subsection \<open>Libraries and services\<close>

text \<open>
  The parts that are not code of the scripts. \<open>'w\<close> is the state of the outside world
  (the model service, the notification service); a call may change it and may raise.
  \<open>interp_globals\<close> are the names the interpreter itself binds in a module
  (\<^verbatim>\<open>__name__\<close>, \<^verbatim>\<open>__file__\<close>, ...). \<open>py_str\<close> is the formatting of a value inside an
  f-string. A page of the PDF is what \<^verbatim>\<open>extract_text\<close> gives for it.
\<close>

record 'w env =
  getenv :: "string \<Rightarrow> string option"
  module_file_dir :: string
  interp_globals :: "string \<Rightarrow> pyval option"
  json_loads :: "string \<Rightarrow> error + pyval"
  json_dumps :: "pyval \<Rightarrow> error + string"
  py_str :: "pyval \<Rightarrow> string"
  completions_create :: "request \<Rightarrow> 'w \<Rightarrow> (error + response) \<times> 'w"
  requests_post :: "string \<Rightarrow> (string \<times> pyval) list \<Rightarrow> 'w \<Rightarrow> error option \<times> 'w"
  ext_call :: "string \<Rightarrow> (string \<times> pyval) list \<Rightarrow> 'w \<Rightarrow> (error + pyval) \<times> 'w"
  openai_new :: "error option"
  pdf_reader :: "string \<Rightarrow> error + (error + string) list"
  open_read :: "string \<Rightarrow> error + string"

text \<open>
  The program state: the outside world, the effects so far, the list objects on the
  heap (an address is an index; \<open>alloc\<close> appends, so live addresses never move), and
  the persona object \<^verbatim>\<open>self\<close>.
\<close>

type_synonym addr = nat

record 'w state =
  world :: 'w
  trace :: "event list"
  heap :: "msg list list"
  self_obj :: me

definition emit :: "event \<Rightarrow> 'w state \<Rightarrow> 'w state" where
  "emit ev s = s\<lparr>trace := trace s @ [ev]\<rparr>"

definition heap_get :: "'w state \<Rightarrow> addr \<Rightarrow> msg list option" where
  "heap_get s a = (if a < length (heap s) then Some (heap s ! a) else None)"

definition alloc :: "msg list \<Rightarrow> 'w state \<Rightarrow> addr \<times> 'w state" where
  "alloc xs s = (length (heap s), s\<lparr>heap := heap s @ [xs]\<rparr>)"

definition heap_extend :: "addr \<Rightarrow> msg list \<Rightarrow> 'w state \<Rightarrow> 'w state" where
  "heap_extend a xs s = s\<lparr>heap := (heap s)[a := heap s ! a @ xs]\<rparr>"

section \<open>The persona chatbot: \<^verbatim>\<open>me_with_tools.py\<close>\<close>

subsection \<open>Module level: environment variables and \<open>push\<close>\<close>

definition opt_str :: "string option \<Rightarrow> pyval" where
  "opt_str v = (case v of None \<Rightarrow> PNone | Some x \<Rightarrow> PStr x)"

definition pushover_token :: "'w env \<Rightarrow> pyval" where
  "pushover_token E = opt_str (getenv E ''PUSHOVER_TOKEN'')"

definition pushover_user :: "'w env \<Rightarrow> pyval" where
  "pushover_user E = opt_str (getenv E ''PUSHOVER_USER'')"

text \<open>\<^verbatim>\<open>os.getenv("PUSHOVER_URL") or ""\<close>: an unset or empty variable gives the empty string.\<close>

definition pushover_url :: "'w env \<Rightarrow> string" where
  "pushover_url E = (case getenv E ''PUSHOVER_URL'' of None \<Rightarrow> '''' | Some u \<Rightarrow> if u = [] then '''' else u)"

text \<open>
  \<^verbatim>\<open>push(message)\<close>: print, build the payload, POST it. An exception of the POST leaves
  \<open>push\<close> as it is; otherwise \<open>push\<close> returns \<^verbatim>\<open>None\<close>.
\<close>

definition push :: "'w env \<Rightarrow> pyval \<Rightarrow> 'w state \<Rightarrow> (error + pyval) \<times> 'w state" where
  "push E message s =
     (let s1 = emit (Printed (''Pushing notification: '' @ py_str E message)) s;
          payload = [(''token'', pushover_token E), (''user'', pushover_user E), (''message'', message)];
          (r, w') = requests_post E (pushover_url E) payload (world s1);
          s2 = emit (Posted (pushover_url E) payload) (s1\<lparr>world := w'\<rparr>)
      in case r of Some e \<Rightarrow> (Inl e, s2) | None \<Rightarrow> (Inr PNone, s2))"

subsection \<open>Function tools\<close>

definition record_user_details ::
  "'w env \<Rightarrow> pyval \<Rightarrow> pyval \<Rightarrow> pyval \<Rightarrow> 'w state \<Rightarrow> (error + pyval) \<times> 'w state" where
  "record_user_details E email uname notes s =
     (case push E (PStr (''Recording interest from '' @ py_str E uname @ '' with email ''
                          @ py_str E email @ '' and notes: '' @ py_str E notes)) s of
        (Inl e, s') \<Rightarrow> (Inl e, s')
      | (Inr _, s') \<Rightarrow> (Inr (PDict [(''recorded'', PStr ''ok'')]), s'))"

definition record_unknown_question ::
  "'w env \<Rightarrow> pyval \<Rightarrow> 'w state \<Rightarrow> (error + pyval) \<times> 'w state" where
  "record_unknown_question E question s =
     (case push E (PStr (''Recording '' @ py_str E question @ '' asked that I couldn't answer'')) s of
        (Inl e, s') \<Rightarrow> (Inl e, s')
      | (Inr _, s') \<Rightarrow> (Inr (PDict [(''recorded'', PStr ''ok'')]), s'))"

subsection \<open>JSON tool descriptions\<close>

definition record_user_details_json :: pyval where
  "record_user_details_json = PDict
     [(''name'', PStr ''record_user_details''),
      (''description'', PStr ''Use this tool to record that a user is interested in being in touch ans provided an email adress''),
      (''parameters'', PDict
         [(''type'', PStr ''object''),
          (''properties'', PDict
             [(''email'', PDict [(''type'', PStr ''string''),
                                 (''description'', PStr ''The email adress of this user'')]),
              (''name'', PDict [(''type'', PStr ''string''),
                                (''description'', PStr ''The name of this user'')]),
              (''notes'', PDict [(''type'', PStr ''string''),
                                 (''description'', PStr ''Any additional information that is worth recording'')])]),
          (''required'', PList [PStr ''email'']),
          (''additionalProperties'', PBool False)])]"

definition record_unknown_question_json :: pyval where
  "record_unknown_question_json = PDict
     [(''name'', PStr ''record_unknown_question''),
      (''description'', PStr ''Always use this tool to record any question that couldn't be answered or you didn't know the answer to''),
      (''parameters'', PDict
         [(''type'', PStr ''object''),
          (''properties'', PDict
             [(''question'', PDict [(''type'', PStr ''string''),
                                    (''description'', PStr ''The question that couldn't be answered'')])]),
          (''required'', PList [PStr ''question'']),
          (''additionalProperties'', PBool False)])]"

definition tools :: pyval where
  "tools = PList [PDict [(''type'', PStr ''function''), (''function'', record_user_details_json)],
                  PDict [(''type'', PStr ''function''), (''function'', record_unknown_question_json)]]"

subsection \<open>The class \<open>Me\<close>: construction\<close>

text \<open>\<^verbatim>\<open>os.path.join\<close> on two components (POSIX).\<close>

definition path_join :: "string \<Rightarrow> string \<Rightarrow> string" where
  "path_join a b =
     (if b \<noteq> [] \<and> hd b = CHR ''/'' then b
      else if a = [] \<or> last a = CHR ''/'' then a @ b
      else a @ ''/'' @ b)"

text \<open>
  The loop over \<^verbatim>\<open>reader.pages\<close>: a page whose extraction raises ends the loop with that
  exception; a page with empty text is skipped.
\<close>

fun read_pages :: "(error + string) list \<Rightarrow> string \<Rightarrow> error + string" where
  "read_pages [] acc = Inr acc"
| "read_pages (p # ps) acc =
     (case p of
        Inl e \<Rightarrow> Inl e
      | Inr text \<Rightarrow> read_pages ps (if text \<noteq> [] then acc @ text else acc))"

definition init_me :: "'w env \<Rightarrow> error + me" where
  "init_me E =
     (case openai_new E of
        Some e \<Rightarrow> Inl e
      | None \<Rightarrow>
     (case pdf_reader E (path_join (path_join (module_file_dir E) ''data'') ''chaniotakos.pdf'') of
        Inl e \<Rightarrow> Inl e
      | Inr pages \<Rightarrow>
     (case read_pages pages [] of
        Inl e \<Rightarrow> Inl e
      | Inr b \<Rightarrow>
     (case open_read E (path_join (path_join (module_file_dir E) ''data'') ''summary.txt'') of
        Inl e \<Rightarrow> Inl e
      | Inr sm \<Rightarrow> Inr \<lparr>name = ''Ypatios Chaniotakos'', summary = sm, bio = b\<rparr>))))"

subsection \<open>The module's global names\<close>

text \<open>
  What the module's top-level statements bind, in the order of the file; \<^verbatim>\<open>me\<close> is
  bound by the main block before the chat interface starts. \<^verbatim>\<open>globals().get\<close> sees
  these and the names the interpreter binds, and gives \<^verbatim>\<open>None\<close> for any other name.
\<close>

definition module_globals :: "'w env \<Rightarrow> (string \<times> pyval) list" where
  "module_globals E =
     [(''OpenAI'', PExt ''OpenAI''),
      (''os'', PExt ''os''),
      (''load_dotenv'', PExt ''load_dotenv''),
      (''requests'', PExt ''requests''),
      (''json'', PExt ''json''),
      (''PdfReader'', PExt ''PdfReader''),
      (''gr'', PExt ''gradio''),
      (''Any'', PExt ''Any''),
      (''cast'', PExt ''cast''),
      (''pushover_token'', pushover_token E),
      (''pushover_user'', pushover_user E),
      (''pushover_url'', PStr (pushover_url E)),
      (''push'', PFunc ''push''),
      (''record_user_details'', PFunc ''record_user_details''),
      (''record_unknown_question'', PFunc ''record_unknown_question''),
      (''record_user_details_json'', record_user_details_json),
      (''record_unknown_question_json'', record_unknown_question_json),
      (''tools'', tools),
      (''Me'', PClass ''Me''),
      (''me'', PInst ''Me'')]"

definition globals_get :: "'w env \<Rightarrow> string \<Rightarrow> pyval" where
  "globals_get E nm =
     (case map_of (module_globals E) nm of
        Some v \<Rightarrow> v
      | None \<Rightarrow> (case interp_globals E nm of Some v \<Rightarrow> v | None \<Rightarrow> PNone))"

subsection \<open>Calling a global with keyword arguments\<close>

definition known_keys :: "string list \<Rightarrow> (string \<times> pyval) list \<Rightarrow> bool" where
  "known_keys ks kwargs = list_all (\<lambda>k. k \<in> set ks) (map fst kwargs)"

definition kwarg_default :: "(string \<times> pyval) list \<Rightarrow> string \<Rightarrow> pyval \<Rightarrow> pyval" where
  "kwarg_default kwargs k d = (case map_of kwargs k of None \<Rightarrow> d | Some v \<Rightarrow> v)"

text \<open>
  \<^verbatim>\<open>f(**kwargs)\<close> for the three functions the module defines: an unexpected keyword or
  a missing required parameter is a \<^verbatim>\<open>TypeError\<close>; defaults are those of the \<^verbatim>\<open>def\<close>.
\<close>

definition call_function ::
  "'w env \<Rightarrow> string \<Rightarrow> (string \<times> pyval) list \<Rightarrow> 'w state \<Rightarrow> (error + pyval) \<times> 'w state" where
  "call_function E f kwargs s =
     (if f = ''push'' then
        (case map_of kwargs ''message'' of
           Some m \<Rightarrow> if known_keys [''message''] kwargs then push E m s else (Inl TypeError, s)
         | None \<Rightarrow> (Inl TypeError, s))
      else if f = ''record_user_details'' then
        (case map_of kwargs ''email'' of
           Some em \<Rightarrow>
             if known_keys [''email'', ''name'', ''notes''] kwargs
             then record_user_details E em
                    (kwarg_default kwargs ''name'' (PStr ''Name not provided''))
                    (kwarg_default kwargs ''notes'' (PStr ''Not provided'')) s
             else (Inl TypeError, s)
         | None \<Rightarrow> (Inl TypeError, s))
      else if f = ''record_unknown_question'' then
        (case map_of kwargs ''question'' of
           Some q \<Rightarrow> if known_keys [''question''] kwargs then record_unknown_question E q s
                     else (Inl TypeError, s)
         | None \<Rightarrow> (Inl TypeError, s))
      else (Inl TypeError, s))"

text \<open>
  \<^verbatim>\<open>tool(**arguments)\<close>: \<^verbatim>\<open>arguments\<close> must be a mapping and \<^verbatim>\<open>tool\<close> callable. A
  function of the module is called as above; the class \<^verbatim>\<open>Me\<close> takes no argument and
  runs \<^verbatim>\<open>__init__\<close>; an imported object is called in its library; a string, list,
  dict or instance is not callable.
\<close>

definition call_value ::
  "'w env \<Rightarrow> pyval \<Rightarrow> pyval \<Rightarrow> 'w state \<Rightarrow> (error + pyval) \<times> 'w state" where
  "call_value E tool arguments s =
     (case arguments of
        PDict kwargs \<Rightarrow>
          (case tool of
             PFunc f \<Rightarrow> call_function E f kwargs s
           | PClass c \<Rightarrow>
               (if kwargs \<noteq> [] then (Inl TypeError, s)
                else case init_me E of Inl e \<Rightarrow> (Inl e, s) | Inr m \<Rightarrow> (Inr (PInst c), s))
           | PExt x \<Rightarrow> (let (r, w') = ext_call E x kwargs (world s) in (r, s\<lparr>world := w'\<rparr>))
           | _ \<Rightarrow> (Inl TypeError, s))
      | _ \<Rightarrow> (Inl TypeError, s))"

subsection \<open>\<open>Me.handle_tool_call\<close>\<close>

text \<open>Lines 118 to 122 of the loop body: parse the arguments, print, look up, call.\<close>

definition dispatch ::
  "'w env \<Rightarrow> tool_call \<Rightarrow> 'w state \<Rightarrow> (error + pyval) \<times> 'w state" where
  "dispatch E tc s =
     (let tool_name = function_name tc in
      case json_loads E (function_arguments tc) of
        Inl e \<Rightarrow> (Inl e, s)
      | Inr arguments \<Rightarrow>
          (let s1 = emit (Printed (''Tool called: '' @ tool_name)) s;
               tool = globals_get E tool_name
           in if truthy tool then call_value E tool arguments s1 else (Inr (PDict []), s1)))"

text \<open>Line 123: the dict appended to \<^verbatim>\<open>results\<close>.\<close>

definition tool_message :: "string \<Rightarrow> string \<Rightarrow> msg" where
  "tool_message c i = MDict [(''role'', PStr ''tool''), (''content'', PStr c), (''tool_call_id'', PStr i)]"

definition handle_one ::
  "'w env \<Rightarrow> tool_call \<Rightarrow> 'w state \<Rightarrow> (error + msg) \<times> 'w state" where
  "handle_one E tc s =
     (case dispatch E tc s of
        (Inl e, s') \<Rightarrow> (Inl e, s')
      | (Inr result, s') \<Rightarrow>
          (case json_dumps E result of
             Inl e \<Rightarrow> (Inl e, s')
           | Inr c \<Rightarrow> (Inr (tool_message c (call_id tc)), s')))"

fun handle_tool_call_loop ::
  "'w env \<Rightarrow> tool_call list \<Rightarrow> msg list \<Rightarrow> 'w state \<Rightarrow> (error + msg list) \<times> 'w state" where
  "handle_tool_call_loop E [] results s = (Inr results, s)"
| "handle_tool_call_loop E (tc # tcs) results s =
     (case handle_one E tc s of
        (Inl e, s') \<Rightarrow> (Inl e, s')
      | (Inr r, s') \<Rightarrow> handle_tool_call_loop E tcs (results @ [r]) s')"

definition handle_tool_call ::
  "'w env \<Rightarrow> tool_call list \<Rightarrow> 'w state \<Rightarrow> (error + msg list) \<times> 'w state" where
  "handle_tool_call E tcs s = handle_tool_call_loop E tcs [] s"

subsection \<open>\<open>Me.system_prompt\<close>\<close>

text \<open>
  The three f-strings, concatenated. A backslash at the end of a source line inside
  the literal joins the lines without a character between them.
\<close>

definition prompt_text :: "me \<Rightarrow> string" where
  "prompt_text m =
     ''You are acting as '' @ name m @ ''. You are answering questions on '' @ name m @ '''s website, ''
     @ ''particularly questions related to '' @ name m @ '''s career, background, skills and experience. ''
     @ ''Your responsibility is to represent '' @ name m @ '' for interactions on the website as faithfully as possible. ''
     @ ''You are given a summary of '' @ name m @ '''s background and bio profile which you can use to answer questions. ''
     @ ''Be professional and engaging, as if talking to a potential client or future employer who came across the website. ''
     @ ''If you don't know the answer to any question, use your record_unknown_question tool to record the question that you couldn't answer, even if it's about something trivial or unrelated to career. ''
     @ ''If the user is engaging in discussion, try to steer them towards getting in touch via email; ask for their email and record it using your record_user_details tool. ''
     @ ''\<newline>\<newline>## Summary:\<newline>'' @ summary m @ ''\<newline>\<newline>## bio Profile:\<newline>'' @ bio m @ ''\<newline>\<newline>''
     @ ''With this context, please chat with the user, always staying in character as '' @ name m @ ''.''"

definition system_prompt :: "'w state \<Rightarrow> string \<times> 'w state" where
  "system_prompt s = (prompt_text (self_obj s), s)"

subsection \<open>\<open>Me.chat\<close>\<close>

text \<open>The local variables of \<^verbatim>\<open>chat\<close> that the loop reads and writes.\<close>

record locals =
  messages :: addr
  done_flag :: bool
  response :: "response option"

text \<open>The request of line 144; \<^verbatim>\<open>cast(Any, tools)\<close> is \<^verbatim>\<open>tools\<close>.\<close>

definition chat_request :: "msg list \<Rightarrow> request" where
  "chat_request ms = \<lparr>req_model = ''gpt-4o-mini'', req_messages = ms, req_tools = tools\<rparr>"

text \<open>
  One execution of the loop body (lines 144 to 152). The request carries the current
  content of the list \<^verbatim>\<open>messages\<close>. \<^verbatim>\<open>choices[0]\<close> of an empty list is an
  \<^verbatim>\<open>IndexError\<close>; iterating over \<^verbatim>\<open>tool_calls\<close> when it is \<^verbatim>\<open>None\<close> is a \<^verbatim>\<open>TypeError\<close>.
\<close>

definition chat_body :: "'w env \<Rightarrow> locals \<Rightarrow> 'w state \<Rightarrow> (error + locals) \<times> 'w state" where
  "chat_body E L s =
     (let req = chat_request (heap s ! messages L);
          (r, w') = completions_create E req (world s);
          s1 = emit (ApiCall req r) (s\<lparr>world := w'\<rparr>)
      in case r of
           Inl e \<Rightarrow> (Inl e, s1)
         | Inr resp \<Rightarrow>
             (case choices resp of
                [] \<Rightarrow> (Inl IndexError, s1)
              | c # _ \<Rightarrow>
                  if finish_reason c = ''tool_calls'' then
                    (case tool_calls (cmessage c) of
                       None \<Rightarrow> (Inl TypeError, s1)
                     | Some tcs \<Rightarrow>
                         (case handle_tool_call E tcs s1 of
                            (Inl e, s2) \<Rightarrow> (Inl e, s2)
                          | (Inr results, s2) \<Rightarrow>
                              (Inr (L\<lparr>response := Some resp\<rparr>),
                               heap_extend (messages L) results
                                 (heap_extend (messages L) [MObj (cmessage c)] s2))))
                  else (Inr (L\<lparr>response := Some resp, done_flag := True\<rparr>), s1)))"

text \<open>
  The \<^verbatim>\<open>while not done\<close> loop. The fuel bounds the number of times the condition is
  tested; \<open>OutOfFuel\<close> means the loop is still running.
\<close>

datatype loop_exit = OutOfFuel | Raised error | Exited

fun chat_while :: "'w env \<Rightarrow> nat \<Rightarrow> locals \<Rightarrow> 'w state \<Rightarrow> loop_exit \<times> locals \<times> 'w state" where
  "chat_while E 0 L s = (OutOfFuel, L, s)"
| "chat_while E (Suc n) L s =
     (if \<not> done_flag L then
        (case chat_body E L s of
           (Inl e, s') \<Rightarrow> (Raised e, L, s')
         | (Inr L', s') \<Rightarrow> chat_while E n L' s')
      else (Exited, L, s))"

text \<open>Lines 153 to 155, after the loop.\<close>

definition chat_return :: "locals \<Rightarrow> error + string option" where
  "chat_return L =
     (case response L of
        None \<Rightarrow> Inr (Some [])
      | Some resp \<Rightarrow>
          (case choices resp of
             [] \<Rightarrow> Inl IndexError
           | c # _ \<Rightarrow> Inr (content (cmessage c))))"

datatype chat_result = Running | Raises error | Returns "string option"

text \<open>
  \<^verbatim>\<open>chat(message, history)\<close>. \<^verbatim>\<open>history\<close> is a reference to the caller's list; the
  concatenation of line 140 builds a new list object (a value that is not a list
  cannot be concatenated: \<^verbatim>\<open>TypeError\<close>).
\<close>

definition chat ::
  "'w env \<Rightarrow> nat \<Rightarrow> string \<Rightarrow> addr \<Rightarrow> 'w state \<Rightarrow> chat_result \<times> 'w state" where
  "chat E fuel user_message history s =
     (let (sp, s0) = system_prompt s in
      case heap_get s0 history of
        None \<Rightarrow> (Raises TypeError, s0)
      | Some h \<Rightarrow>
          (let (m, s1) = alloc ([MDict [(''role'', PStr ''system''), (''content'', PStr sp)]] @ h
                                @ [MDict [(''role'', PStr ''user''), (''content'', PStr user_message)]]) s0
           in case chat_while E fuel \<lparr>messages = m, done_flag = False, response = None\<rparr> s1 of
                (OutOfFuel, L, s2) \<Rightarrow> (Running, s2)
              | (Raised e, L, s2) \<Rightarrow> (Raises e, s2)
              | (Exited, L, s2) \<Rightarrow>
                  (case chat_return L of Inl e \<Rightarrow> (Raises e, s2) | Inr v \<Rightarrow> (Returns v, s2))))"

section \<open>The router graph: \<^verbatim>\<open>router.py\<close>\<close>

subsection \<open>Tools\<close>


definition add :: "int \<Rightarrow> int \<Rightarrow> int" where
  "add a b = a + b"

subsection \<open>The graph library\<close>













subsection \<open>The script\<close>




section \<open>Auxiliary notions for the statements\<close>

text \<open>Reading a tool description: the value under a key, and the keys of a dict.\<close>

fun dict_get :: "pyval \<Rightarrow> string \<Rightarrow> pyval" where
  "dict_get (PDict kvs) k = (case map_of kvs k of Some v \<Rightarrow> v | None \<Rightarrow> PNone)"
| "dict_get v k = PNone"

fun dict_keys :: "pyval \<Rightarrow> string list" where
  "dict_keys (PDict kvs) = map fst kvs"
| "dict_keys v = []"

text \<open>The chat-completion requests among a sequence of effects.\<close>

fun api_requests :: "event list \<Rightarrow> request list" where
  "api_requests [] = []"
| "api_requests (ApiCall req r # evs) = req # api_requests evs"
| "api_requests (ev # evs) = api_requests evs"

text \<open>The effects a computation adds to those of the state it started in.\<close>

definition new_events :: "'w state \<Rightarrow> 'w state \<Rightarrow> event list" where
  "new_events s s' = drop (length (trace s)) (trace s')"

text \<open>
  A step that leaves the heap and the persona object alone and sends no chat-completion
  request: what the tool functions do.
\<close>

definition quiet_step :: "'w state \<Rightarrow> 'w state \<Rightarrow> bool" where
  "quiet_step s s' \<longleftrightarrow>
     heap s' = heap s \<and> self_obj s' = self_obj s \<and>
     (\<exists>evs. trace s' = trace s @ evs \<and> (\<forall>req r. ApiCall req r \<notin> set evs))"

subsection \<open>A concrete environment\<close>

text \<open>
  A small environment to run the definitions on. The model service replays a list of
  prepared replies (the world is the list of replies still to come) and fails when the
  list is exhausted; the notification service accepts every POST; the JSON functions
  cover the few texts used below.
\<close>

definition demo_loads :: "string \<Rightarrow> error + pyval" where
  "demo_loads a =
     (if a = ''{}'' then Inr (PDict [])
      else if a = ''{\"question\": \"fees\"}'' then Inr (PDict [(''question'', PStr ''fees'')])
      else Inl (LibError ''JSONDecodeError''))"

definition demo_dumps :: "pyval \<Rightarrow> error + string" where
  "demo_dumps v =
     (if v = PDict [] then Inr ''{}''
      else if v = PDict [(''recorded'', PStr ''ok'')] then Inr ''{\"recorded\": \"ok\"}''
      else Inl TypeError)"

definition demo_str :: "pyval \<Rightarrow> string" where
  "demo_str v = (case v of PStr x \<Rightarrow> x | _ \<Rightarrow> ''?'')"

definition replay :: "request \<Rightarrow> response list \<Rightarrow> (error + response) \<times> response list" where
  "replay req w = (case w of [] \<Rightarrow> (Inl (LibError ''APIConnectionError''), []) | r # rs \<Rightarrow> (Inr r, rs))"

definition demo_env :: "(response list) env" where
  "demo_env = \<lparr>
     getenv = (\<lambda>v. None),
     module_file_dir = ''/app'',
     interp_globals = (\<lambda>v. if v = ''__name__'' then Some (PStr ''__main__'') else None),
     json_loads = demo_loads,
     json_dumps = demo_dumps,
     py_str = demo_str,
     completions_create = replay,
     requests_post = (\<lambda>u p w. (None, w)),
     ext_call = (\<lambda>x kw w. (Inl TypeError, w)),
     openai_new = None,
     pdf_reader = (\<lambda>p. Inr [Inr ''Page one. '', Inr [], Inr ''Page two.'']),
     open_read = (\<lambda>p. Inr ''A summary.'')\<rparr>"

text \<open>The same environment with a network that refuses the POST.\<close>

definition offline_env :: "(response list) env" where
  "offline_env = demo_env\<lparr>requests_post := (\<lambda>u p w. (Some (LibError ''ConnectionError''), w))\<rparr>"

text \<open>The same environment without the PDF, and without the summary file.\<close>

definition no_pdf_env :: "(response list) env" where
  "no_pdf_env = demo_env\<lparr>pdf_reader := (\<lambda>p. Inl (LibError ''FileNotFoundError''))\<rparr>"

definition bad_page_env :: "(response list) env" where
  "bad_page_env = demo_env\<lparr>pdf_reader := (\<lambda>p. Inr [Inr ''Page one. '', Inl (LibError ''PdfReadError'')])\<rparr>"

definition no_summary_env :: "(response list) env" where
  "no_summary_env = demo_env\<lparr>open_read := (\<lambda>p. Inl (LibError ''FileNotFoundError''))\<rparr>"

definition question_call :: tool_call where
  "question_call = \<lparr>call_id = ''call_1'', function_name = ''record_unknown_question'',
                     function_arguments = ''{\"question\": \"fees\"}''\<rparr>"

definition unknown_call :: tool_call where
  "unknown_call = \<lparr>call_id = ''call_2'', function_name = ''lookup_weather'',
                    function_arguments = ''{}''\<rparr>"

definition tool_reply :: response where
  "tool_reply = \<lparr>choices = [\<lparr>finish_reason = ''tool_calls'',
                              cmessage = \<lparr>content = None, tool_calls = Some [question_call]\<rparr>\<rparr>]\<rparr>"

definition plain_reply :: response where
  "plain_reply = \<lparr>choices = [\<lparr>finish_reason = ''stop'',
                               cmessage = \<lparr>content = Some ''Hello.'', tool_calls = None\<rparr>\<rparr>]\<rparr>"

text \<open>The same environment with a model that asks for the tool again on every request.\<close>

definition eager_env :: "(response list) env" where
  "eager_env = demo_env\<lparr>completions_create := (\<lambda>req w. (Inr tool_reply, w))\<rparr>"

text \<open>A state whose heap holds the caller's history (one earlier message) at address 0.\<close>

definition demo_state :: "response list \<Rightarrow> (response list) state" where
  "demo_state replies = \<lparr>
     world = replies,
     trace = [],
     heap = [[MDict [(''role'', PStr ''user''), (''content'', PStr ''Hi'')]]],
     self_obj = \<lparr>name = ''N'', summary = ''S'', bio = ''B''\<rparr>\<rparr>"



section \<open>Properties of the tool functions\<close>

text \<open>
  Every tool function, and so \<open>handle_tool_call\<close>, is a quiet step: it prints and posts,
  and touches neither the heap nor the persona object.
\<close>

lemma quiet_step_refl: "quiet_step s s"
  by (simp add: quiet_step_def)

lemma quiet_step_trans: "quiet_step s t \<Longrightarrow> quiet_step t u \<Longrightarrow> quiet_step s u"
  unfolding quiet_step_def by (elim conjE exE) (auto)

lemma quiet_step_printed: "quiet_step s t \<Longrightarrow> quiet_step s (emit (Printed x) t)"
  unfolding quiet_step_def emit_def by (elim conjE exE) auto

lemma quiet_step_posted: "quiet_step s t \<Longrightarrow> quiet_step s (emit (Posted u p) t)"
  unfolding quiet_step_def emit_def by (elim conjE exE) auto

lemma quiet_step_world: "quiet_step s t \<Longrightarrow> quiet_step s (t\<lparr>world := w\<rparr>)"
  by (simp add: quiet_step_def)

lemmas quiet_intros = quiet_step_refl quiet_step_printed quiet_step_posted quiet_step_world

lemma push_quiet: "quiet_step s (snd (push E m s))"
  by (simp add: push_def Let_def quiet_intros split: prod.splits option.splits)

lemma record_user_details_quiet: "quiet_step s (snd (record_user_details E a b c s))"
  using push_quiet [of s E]
  by (simp add: record_user_details_def split: prod.splits sum.splits) (metis snd_conv)

lemma record_unknown_question_quiet: "quiet_step s (snd (record_unknown_question E q s))"
  using push_quiet [of s E]
  by (simp add: record_unknown_question_def split: prod.splits sum.splits) (metis snd_conv)

lemma call_function_quiet: "quiet_step s (snd (call_function E f kw s))"
  by (simp add: call_function_def push_quiet record_user_details_quiet
      record_unknown_question_quiet quiet_step_refl split: option.splits)

lemma call_value_quiet: "quiet_step s (snd (call_value E tool args s))"
  by (simp add: call_value_def call_function_quiet quiet_intros
      split: pyval.splits sum.splits prod.splits)

lemma dispatch_quiet: "quiet_step s (snd (dispatch E tc s))"
proof -
  have "quiet_step s (emit (Printed x) s)" for x
    by (simp add: quiet_intros)
  then show ?thesis
    by (auto simp: dispatch_def Let_def quiet_intros split: sum.splits
        intro: quiet_step_trans [OF _ call_value_quiet])
qed

lemma handle_one_quiet: "quiet_step s (snd (handle_one E tc s))"
  using dispatch_quiet [of s E tc]
  by (auto simp: handle_one_def split: prod.splits sum.splits)

lemma handle_tool_call_loop_quiet: "quiet_step s (snd (handle_tool_call_loop E tcs acc s))"
proof (induction tcs arbitrary: acc s)
  case Nil
  show ?case by (simp add: quiet_step_refl)
next
  case (Cons tc tcs)
  show ?case
  proof (cases "handle_one E tc s")
    case (Pair r s1)
    have q1: "quiet_step s s1"
      using handle_one_quiet [of s E tc] Pair by simp
    show ?thesis
    proof (cases r)
      case (Inl e)
      with Pair q1 show ?thesis by simp
    next
      case (Inr m)
      with Pair have "snd (handle_tool_call_loop E (tc # tcs) acc s)
          = snd (handle_tool_call_loop E tcs (acc @ [m]) s1)"
        by simp
      with q1 Cons.IH [of s1 "acc @ [m]"] show ?thesis
        by (auto intro: quiet_step_trans)
    qed
  qed
qed

lemma handle_tool_call_quiet: "quiet_step s (snd (handle_tool_call E tcs s))"
  by (simp add: handle_tool_call_def handle_tool_call_loop_quiet)

section \<open>Properties of the chat loop\<close>

lemma heap_extend_twice:
  "heap (heap_extend a ys (heap_extend a xs s)) = (heap s)[a := heap s ! a @ xs @ ys]"
  by (cases "a < length (heap s)") (simp_all add: heap_extend_def list_update_beyond)

lemma heap_extend_frame:
  "self_obj (heap_extend a xs s) = self_obj s" "trace (heap_extend a xs s) = trace s"
  "world (heap_extend a xs s) = world s"
  by (simp_all add: heap_extend_def)

lemma chat_body_char:
  assumes "chat_body E L s = (res, s')"
  shows "\<exists>r w' evs.
           completions_create E (chat_request (heap s ! messages L)) (world s) = (r, w')
         \<and> trace s' = trace s @ ApiCall (chat_request (heap s ! messages L)) r # evs
         \<and> (\<forall>req x. ApiCall req x \<notin> set evs)
         \<and> self_obj s' = self_obj s
         \<and> ((\<exists>e. res = Inl e \<and> heap s' = heap s)
            \<or> (\<exists>resp c cs. r = Inr resp \<and> choices resp = c # cs \<and> finish_reason c \<noteq> ''tool_calls''
                  \<and> res = Inr (L\<lparr>response := Some resp, done_flag := True\<rparr>)
                  \<and> heap s' = heap s \<and> evs = [])
            \<or> (\<exists>resp c cs tcs results s2. r = Inr resp \<and> choices resp = c # cs
                  \<and> finish_reason c = ''tool_calls'' \<and> tool_calls (cmessage c) = Some tcs
                  \<and> handle_tool_call E tcs
                       (emit (ApiCall (chat_request (heap s ! messages L)) r) (s\<lparr>world := w'\<rparr>))
                     = (Inr results, s2)
                  \<and> res = Inr (L\<lparr>response := Some resp\<rparr>)
                  \<and> heap s' = (heap s)[messages L := heap s ! messages L @ MObj (cmessage c) # results]))"
proof -
  define req where "req = chat_request (heap s ! messages L)"
  obtain r w' where cc: "completions_create E req (world s) = (r, w')"
    by (cases "completions_create E req (world s)")
  define s1 where "s1 = emit (ApiCall req r) (s\<lparr>world := w'\<rparr>)"
  have s1_facts: "trace s1 = trace s @ [ApiCall req r]" "heap s1 = heap s" "self_obj s1 = self_obj s"
    by (simp_all add: s1_def emit_def)
  have body: "chat_body E L s =
     (case r of
           Inl e \<Rightarrow> (Inl e, s1)
         | Inr resp \<Rightarrow>
             (case choices resp of
                [] \<Rightarrow> (Inl IndexError, s1)
              | c # _ \<Rightarrow>
                  if finish_reason c = ''tool_calls'' then
                    (case tool_calls (cmessage c) of
                       None \<Rightarrow> (Inl TypeError, s1)
                     | Some tcs \<Rightarrow>
                         (case handle_tool_call E tcs s1 of
                            (Inl e, s2) \<Rightarrow> (Inl e, s2)
                          | (Inr results, s2) \<Rightarrow>
                              (Inr (L\<lparr>response := Some resp\<rparr>),
                               heap_extend (messages L) results
                                 (heap_extend (messages L) [MObj (cmessage c)] s2))))
                  else (Inr (L\<lparr>response := Some resp, done_flag := True\<rparr>), s1)))"
    unfolding chat_body_def Let_def req_def [symmetric] cc s1_def by simp
  have quiet: "handle_tool_call E tcs s1 = (x, s2) \<Longrightarrow>
      heap s2 = heap s \<and> self_obj s2 = self_obj s \<and>
      (\<exists>evs. trace s2 = trace s @ ApiCall req r # evs \<and> (\<forall>q y. ApiCall q y \<notin> set evs))" for tcs x s2
    using handle_tool_call_quiet [of s1 E tcs] s1_facts
    by (auto simp: quiet_step_def)
  show ?thesis
  proof (cases r)
    case (Inl e)
    with assms body s1_facts cc show ?thesis
      unfolding req_def [symmetric] by auto
  next
    case (Inr resp)
    note r_resp = this
    show ?thesis
    proof (cases "choices resp")
      case Nil
      with assms body s1_facts cc r_resp show ?thesis
        unfolding req_def [symmetric] by auto
    next
      case (Cons c cs)
      note ch = this
      show ?thesis
      proof (cases "finish_reason c = ''tool_calls''")
        case False
        with assms body s1_facts cc r_resp ch show ?thesis
          unfolding req_def [symmetric] by auto
      next
        case True
        note fin = this
        show ?thesis
        proof (cases "tool_calls (cmessage c)")
          case None
          with assms body s1_facts cc r_resp ch fin show ?thesis
            unfolding req_def [symmetric] by auto
        next
          case (Some tcs)
          note tc = this
          obtain x s2 where h: "handle_tool_call E tcs s1 = (x, s2)"
            by (cases "handle_tool_call E tcs s1")
          from quiet [OF h] obtain evs where q:
            "heap s2 = heap s" "self_obj s2 = self_obj s"
            "trace s2 = trace s @ ApiCall req r # evs" "\<forall>q y. ApiCall q y \<notin> set evs"
            by blast
          show ?thesis
          proof (cases x)
            case (Inl e)
            with assms body cc r_resp ch fin tc h q show ?thesis
              unfolding req_def [symmetric] by auto
          next
            case (Inr results)
            with assms body r_resp ch fin tc h
            have res: "res = Inr (L\<lparr>response := Some resp\<rparr>)"
              and s': "s' = heap_extend (messages L) results
                                 (heap_extend (messages L) [MObj (cmessage c)] s2)"
              by auto
            have hp: "heap s' = (heap s)[messages L := heap s ! messages L @ MObj (cmessage c) # results]"
              unfolding s' heap_extend_twice q by simp
            have tr: "trace s' = trace s @ ApiCall req r # evs" "self_obj s' = self_obj s"
              unfolding s' by (simp_all add: heap_extend_frame q)
            from h Inr have h': "handle_tool_call E tcs (emit (ApiCall req r) (s\<lparr>world := w'\<rparr>)) = (Inr results, s2)"
              by (simp add: s1_def)
            show ?thesis
              unfolding req_def [symmetric]
              using cc tr q(4) res hp r_resp ch fin tc h' by blast
          qed
        qed
      qed
    qed
  qed
qed

lemma chat_body_inv:
  assumes "chat_body E L s = (res, s')"
  shows "self_obj s' = self_obj s"
    and "length (heap s') = length (heap s)"
    and "a \<noteq> messages L \<Longrightarrow> heap s' ! a = heap s ! a"
    and "prefix (heap s ! messages L) (heap s' ! messages L)"
    and "res = Inr L' \<Longrightarrow> messages L' = messages L"
    and "\<exists>r evs. trace s' = trace s @ ApiCall (chat_request (heap s ! messages L)) r # evs
           \<and> (\<forall>req x. ApiCall req x \<notin> set evs)"
proof -
  from chat_body_char [OF assms] obtain r w' evs where
    tr: "trace s' = trace s @ ApiCall (chat_request (heap s ! messages L)) r # evs"
        "\<forall>req x. ApiCall req x \<notin> set evs" and
    so: "self_obj s' = self_obj s" and
    cases: "(\<exists>e. res = Inl e \<and> heap s' = heap s)
            \<or> (\<exists>resp. res = Inr (L\<lparr>response := Some resp, done_flag := True\<rparr>) \<and> heap s' = heap s)
            \<or> (\<exists>resp m results. res = Inr (L\<lparr>response := Some resp\<rparr>)
                  \<and> heap s' = (heap s)[messages L := heap s ! messages L @ MObj m # results])"
    by blast
  show "self_obj s' = self_obj s" by (rule so)
  show "\<exists>r evs. trace s' = trace s @ ApiCall (chat_request (heap s ! messages L)) r # evs
           \<and> (\<forall>req x. ApiCall req x \<notin> set evs)"
    using tr by blast
  show "length (heap s') = length (heap s)"
    using cases by auto
  show "a \<noteq> messages L \<Longrightarrow> heap s' ! a = heap s ! a"
    using cases by auto
  show "res = Inr L' \<Longrightarrow> messages L' = messages L"
    using cases by auto
  show "prefix (heap s ! messages L) (heap s' ! messages L)"
  proof (cases "messages L < length (heap s)")
    case True
    with cases show ?thesis by auto
  next
    case False
    with cases show ?thesis by (auto simp: list_update_beyond)
  qed
qed

text \<open>What every run of the loop preserves.\<close>

lemma chat_while_inv:
  assumes "chat_while E n L s = (ex, L', s')"
  shows "messages L' = messages L \<and> self_obj s' = self_obj s
       \<and> length (heap s') = length (heap s)
       \<and> (\<forall>a. a \<noteq> messages L \<longrightarrow> heap s' ! a = heap s ! a)
       \<and> prefix (heap s ! messages L) (heap s' ! messages L)
       \<and> (\<exists>evs. trace s' = trace s @ evs
             \<and> (\<forall>req x. ApiCall req x \<in> set evs \<longrightarrow> (\<exists>ms. req = chat_request ms)))"
  using assms
proof (induction n arbitrary: L s)
  case 0
  then show ?case by simp
next
  case (Suc n)
  show ?case
  proof (cases "done_flag L")
    case True
    with Suc.prems show ?thesis by simp
  next
    case False
    obtain res s1 where b: "chat_body E L s = (res, s1)"
      by (cases "chat_body E L s")
    note inv = chat_body_inv [OF b]
    from inv(6) obtain r evs1 where tr1:
      "trace s1 = trace s @ ApiCall (chat_request (heap s ! messages L)) r # evs1"
      "\<forall>req x. ApiCall req x \<notin> set evs1" by blast
    show ?thesis
    proof (cases res)
      case (Inl e)
      with False b Suc.prems have "L' = L" "s' = s1" by simp_all
      with inv tr1 show ?thesis by auto
    next
      case (Inr L1)
      with False b Suc.prems have run: "chat_while E n L1 s1 = (ex, L', s')" by simp
      have m1: "messages L1 = messages L" using inv(5) Inr by simp
      from Suc.IH [OF run] obtain evs2 where ih:
        "messages L' = messages L1" "self_obj s' = self_obj s1"
        "length (heap s') = length (heap s1)"
        "\<forall>a. a \<noteq> messages L1 \<longrightarrow> heap s' ! a = heap s1 ! a"
        "prefix (heap s1 ! messages L1) (heap s' ! messages L1)"
        "trace s' = trace s1 @ evs2"
        "\<forall>req x. ApiCall req x \<in> set evs2 \<longrightarrow> (\<exists>ms. req = chat_request ms)"
        by blast
      have "prefix (heap s ! messages L) (heap s' ! messages L)"
        using inv(4) ih(5) m1 by (auto intro: prefix_order.trans)
      moreover have "trace s' = trace s @ (ApiCall (chat_request (heap s ! messages L)) r # evs1 @ evs2)"
        using tr1 ih(6) by simp
      moreover have "\<forall>req x. ApiCall req x \<in> set (ApiCall (chat_request (heap s ! messages L)) r # evs1 @ evs2)
          \<longrightarrow> (\<exists>ms. req = chat_request ms)"
        using tr1(2) ih(7) by auto
      ultimately show ?thesis
        using ih(1-4) m1 inv(1-3) by (metis (no_types, lifting))
    qed
  qed
qed

text \<open>The loop is left through its condition only after a reply that requests no tool.\<close>

lemma chat_while_exit:
  assumes "chat_while E n L s = (Exited, L', s')" and "\<not> done_flag L"
  shows "\<exists>req resp c cs evs. trace s' = trace s @ evs @ [ApiCall req (Inr resp)]
           \<and> response L' = Some resp \<and> choices resp = c # cs
           \<and> finish_reason c \<noteq> ''tool_calls''"
  using assms
proof (induction n arbitrary: L s)
  case 0
  then show ?case by simp
next
  case (Suc n)
  obtain res s1 where b: "chat_body E L s = (res, s1)"
    by (cases "chat_body E L s")
  from Suc.prems b obtain L1 where res: "res = Inr L1" and run: "chat_while E n L1 s1 = (Exited, L', s')"
    by (cases res) auto
  have "\<exists>r evs1. trace s1 = trace s @ ApiCall (chat_request (heap s ! messages L)) r # evs1 \<and>
          ((\<exists>resp c cs. r = Inr resp \<and> choices resp = c # cs \<and> finish_reason c \<noteq> ''tool_calls''
                  \<and> L1 = L\<lparr>response := Some resp, done_flag := True\<rparr> \<and> evs1 = [])
            \<or> (\<exists>resp. L1 = L\<lparr>response := Some resp\<rparr>))"
    using chat_body_char [OF b] unfolding res
    by (elim exE conjE disjE) (simp, blast, blast)
  then obtain r evs1 where
    tr: "trace s1 = trace s @ ApiCall (chat_request (heap s ! messages L)) r # evs1" and
    cases: "(\<exists>resp c cs. r = Inr resp \<and> choices resp = c # cs \<and> finish_reason c \<noteq> ''tool_calls''
                  \<and> L1 = L\<lparr>response := Some resp, done_flag := True\<rparr> \<and> evs1 = [])
            \<or> (\<exists>resp. L1 = L\<lparr>response := Some resp\<rparr>)"
    by blast
  from cases show ?case
  proof
    assume "\<exists>resp c cs. r = Inr resp \<and> choices resp = c # cs \<and> finish_reason c \<noteq> ''tool_calls''
                  \<and> L1 = L\<lparr>response := Some resp, done_flag := True\<rparr> \<and> evs1 = []"
    then obtain resp c cs where f: "r = Inr resp" "choices resp = c # cs"
      "finish_reason c \<noteq> ''tool_calls''" "L1 = L\<lparr>response := Some resp, done_flag := True\<rparr>" "evs1 = []"
      by blast
    from run f(4) have "L' = L1 \<and> s' = s1" by (cases n) auto
    with f tr show ?thesis by auto
  next
    assume "\<exists>resp. L1 = L\<lparr>response := Some resp\<rparr>"
    with Suc.prems(2) have "\<not> done_flag L1" by auto
    from Suc.IH [OF run this] obtain req resp c cs evs where
      "trace s' = trace s1 @ evs @ [ApiCall req (Inr resp)]" "response L' = Some resp"
      "choices resp = c # cs" "finish_reason c \<noteq> ''tool_calls''" by blast
    with tr show ?thesis by auto
  qed
qed

section \<open>The system prompt\<close>

lemma sublist_in_append_left: "sublist xs ys \<Longrightarrow> sublist xs (ps @ ys)"
  unfolding sublist_def by (metis append.assoc)

lemma sublist_head_append: "sublist xs (xs @ ss)"
  by (rule sublist_append_rightI)

text \<open>
  Claim C4. For every persona object, the text returned by \<open>system_prompt\<close> contains
  the name, the summary and the biography, each as a contiguous piece, character for
  character.
\<close>

theorem system_prompt_embeds_profile:
  "sublist (name (self_obj s)) (fst (system_prompt s))
   \<and> sublist (summary (self_obj s)) (fst (system_prompt s))
   \<and> sublist (bio (self_obj s)) (fst (system_prompt s))"
  unfolding system_prompt_def prompt_text_def fst_conv
  by (intro conjI sublist_head_append sublist_in_append_left)

section \<open>The tool-calling loop ends on a plain reply\<close>

lemma chat_cases:
  assumes "chat E n um h s = (res, s')"
  obtains (no_list) "\<not> h < length (heap s)" "res = Raises TypeError" "s' = s"
  | (run) ex L' where "h < length (heap s)"
      "chat_while E n \<lparr>messages = length (heap s), done_flag = False, response = None\<rparr>
         (s\<lparr>heap := heap s @
            [[MDict [(''role'', PStr ''system''), (''content'', PStr (prompt_text (self_obj s)))]]
              @ heap s ! h @ [MDict [(''role'', PStr ''user''), (''content'', PStr um)]]]\<rparr>)
       = (ex, L', s')"
      "res = (case ex of OutOfFuel \<Rightarrow> Running | Raised e \<Rightarrow> Raises e
              | Exited \<Rightarrow> (case chat_return L' of Inl e \<Rightarrow> Raises e | Inr v \<Rightarrow> Returns v))"
proof (cases "h < length (heap s)")
  case False
  with assms have "res = Raises TypeError" "s' = s"
    by (simp_all add: chat_def system_prompt_def heap_get_def)
  with False show ?thesis by (rule no_list)
next
  case True
  obtain ex L' s2 where w: "chat_while E n \<lparr>messages = length (heap s), done_flag = False, response = None\<rparr>
         (s\<lparr>heap := heap s @
            [[MDict [(''role'', PStr ''system''), (''content'', PStr (prompt_text (self_obj s)))]]
              @ heap s ! h @ [MDict [(''role'', PStr ''user''), (''content'', PStr um)]]]\<rparr>)
       = (ex, L', s2)"
    using prod_cases3 by blast
  from assms True w have "s' = s2"
    and "res = (case ex of OutOfFuel \<Rightarrow> Running | Raised e \<Rightarrow> Raises e
              | Exited \<Rightarrow> (case chat_return L' of Inl e \<Rightarrow> Raises e | Inr v \<Rightarrow> Returns v))"
    by (auto simp: chat_def system_prompt_def heap_get_def alloc_def
        split: loop_exit.splits sum.splits)
  with True w show ?thesis by (auto intro: run)
qed

lemma new_events_append: "trace s' = trace s @ evs \<Longrightarrow> new_events s s' = evs"
  by (simp add: new_events_def)

text \<open>A run of \<open>chat\<close> that returns a value has a last reply, which asks for no tool.\<close>

lemma chat_returns:
  assumes "chat E n um h s = (Returns v, s')"
  shows "\<exists>req resp c cs evs. new_events s s' = evs @ [ApiCall req (Inr resp)]
           \<and> choices resp = c # cs \<and> finish_reason c \<noteq> ''tool_calls''
           \<and> v = content (cmessage c)"
  using assms
proof (cases rule: chat_cases)
  case no_list
  then show ?thesis by simp
next
  case (run ex L')
  from run(3) have ex: "ex = Exited" and ret: "chat_return L' = Inr v"
    by (auto split: loop_exit.splits sum.splits)
  from chat_while_exit [OF run(2) [unfolded ex]] obtain req resp c cs evs where
    f: "trace s' = trace s @ evs @ [ApiCall req (Inr resp)]" "response L' = Some resp"
       "choices resp = c # cs" "finish_reason c \<noteq> ''tool_calls''"
    by auto
  from ret f(2,3) have "v = content (cmessage c)"
    by (simp add: chat_return_def)
  with f new_events_append [OF f(1)] show ?thesis by blast
qed





section \<open>The value returned by chat\<close>

lemma api_requests_append: "api_requests (xs @ ys) = api_requests xs @ api_requests ys"
  by (induction xs rule: api_requests.induct) simp_all

lemma set_api_requests: "set (api_requests evs) = {req. \<exists>r. ApiCall req r \<in> set evs}"
  by (induction evs rule: api_requests.induct) auto

text \<open>The frame of a whole call of \<open>chat\<close>.\<close>

lemma chat_frame:
  assumes "chat E n um h s = (res, s')"
  shows "self_obj s' = self_obj s
     \<and> (\<forall>a<length (heap s). heap s' ! a = heap s ! a)
     \<and> (\<exists>evs. trace s' = trace s @ evs
           \<and> (\<forall>req x. ApiCall req x \<in> set evs \<longrightarrow> (\<exists>ms. req = chat_request ms)))
     \<and> (h < length (heap s) \<longrightarrow> length (heap s') = Suc (length (heap s))
           \<and> prefix ([MDict [(''role'', PStr ''system''), (''content'', PStr (prompt_text (self_obj s)))]]
                      @ heap s ! h @ [MDict [(''role'', PStr ''user''), (''content'', PStr um)]])
                    (heap s' ! length (heap s)))"
proof (cases rule: chat_cases [OF assms])
  case 1
  then show ?thesis by simp
next
  case (2 ex L')
  from chat_while_inv [OF 2(2)] show ?thesis
    by (auto simp: nth_append)
qed


text \<open>
  Claim C10. Started as \<open>chat\<close> starts it (\<^verbatim>\<open>done = False\<close>, \<^verbatim>\<open>response = None\<close>), the loop
  is left through its condition only after the body has run: at least one request has
  been sent, \<^verbatim>\<open>response\<close> holds a reply, so the branch of \<open>chat_return\<close> that gives the
  empty string is not taken; and whatever \<open>chat\<close> returns is the content of the last
  reply received.
\<close>

theorem chat_returns_last_reply_content:
  "(chat_while E n \<lparr>messages = m, done_flag = False, response = None\<rparr> s = (Exited, L', s') \<longrightarrow>
      api_requests (new_events s s') \<noteq> []
      \<and> (\<exists>req resp c cs evs. new_events s s' = evs @ [ApiCall req (Inr resp)]
            \<and> response L' = Some resp \<and> choices resp = c # cs
            \<and> chat_return L' = Inr (content (cmessage c))))
   \<and> (chat E n um h t = (Returns v, t') \<longrightarrow>
        (\<exists>req resp c cs evs. new_events t t' = evs @ [ApiCall req (Inr resp)]
            \<and> choices resp = c # cs \<and> v = content (cmessage c)))"
proof (intro conjI impI)
  assume a: "chat_while E n \<lparr>messages = m, done_flag = False, response = None\<rparr> s = (Exited, L', s')"
  from chat_while_exit [OF a] obtain req resp c cs evs where
    f: "trace s' = trace s @ evs @ [ApiCall req (Inr resp)]" "response L' = Some resp"
       "choices resp = c # cs"
    by auto
  from f(1) have ne: "new_events s s' = evs @ [ApiCall req (Inr resp)]"
    by (rule new_events_append)
  then show "api_requests (new_events s s') \<noteq> []"
    by (simp add: api_requests_append)
  from f(2,3) have "chat_return L' = Inr (content (cmessage c))"
    by (simp add: chat_return_def)
  with ne f show "\<exists>req resp c cs evs. new_events s s' = evs @ [ApiCall req (Inr resp)]
            \<and> response L' = Some resp \<and> choices resp = c # cs
            \<and> chat_return L' = Inr (content (cmessage c))"
    by blast
next
  assume "chat E n um h t = (Returns v, t')"
  from chat_returns [OF this]
  show "\<exists>req resp c cs evs. new_events t t' = evs @ [ApiCall req (Inr resp)]
            \<and> choices resp = c # cs \<and> v = content (cmessage c)"
    by blast
qed

theorem chat_returns_last_reply_content_witness:
  "fst (chat_while demo_env 2 \<lparr>messages = 0, done_flag = False, response = None\<rparr>
          (demo_state [plain_reply])) = Exited
   \<and> api_requests (new_events (demo_state [plain_reply])
         (snd (snd (chat_while demo_env 2 \<lparr>messages = 0, done_flag = False, response = None\<rparr>
            (demo_state [plain_reply]))))) \<noteq> []
   \<and> fst (chat demo_env 2 ''Q'' 0 (demo_state [plain_reply])) = Returns (Some ''Hello.'')
   \<and> (\<exists>req resp c cs evs.
         new_events (demo_state [plain_reply]) (snd (chat demo_env 2 ''Q'' 0 (demo_state [plain_reply])))
           = evs @ [ApiCall req (Inr resp)]
         \<and> choices resp = c # cs \<and> Some ''Hello.'' = content (cmessage c))"
proof -
  let ?t = "demo_state [plain_reply]"
  let ?L = "\<lparr>messages = 0, done_flag = False, response = None\<rparr>"
  let ?w = "chat_while demo_env 2 ?L ?t"
  let ?c = "chat demo_env 2 ''Q'' 0 ?t"
  have r1: "fst ?w = Exited" by code_simp
  then have h1: "?w = (Exited, fst (snd ?w), snd (snd ?w))"
    by (simp add: prod_eq_iff)
  have r2: "fst ?c = Returns (Some ''Hello.'')" by code_simp
  then have h2: "?c = (Returns (Some ''Hello.''), snd ?c)"
    by (simp add: prod_eq_iff)
  note inst = chat_returns_last_reply_content [of demo_env 2 0 ?t "fst (snd ?w)" "snd (snd ?w)"
      "''Q''" 0 ?t "Some ''Hello.''" "snd ?c"]
  from inst h1 have c1: "api_requests (new_events ?t (snd (snd ?w))) \<noteq> []"
    by blast
  from inst h2 have c2: "\<exists>req resp c cs evs.
         new_events ?t (snd ?c) = evs @ [ApiCall req (Inr resp)]
         \<and> choices resp = c # cs \<and> Some ''Hello.'' = content (cmessage c)"
    by blast
  from r1 c1 r2 c2 show ?thesis by blast
qed

section \<open>The message list is append-only\<close>

text \<open>
  Claim C5. The list \<^verbatim>\<open>messages\<close> only grows at its end. One execution of the loop body
  leaves every other list alone and either raises, or ends the loop (both with the
  list unchanged), or appends the model's message followed by the tool results. Over
  any run of the loop the old content stays a prefix of the new. A call of \<open>chat\<close>
  changes no list that existed before the call, the caller's history among them: it
  works on a list of its own, which starts with the system prompt, the history and
  the user's message.
\<close>

theorem chat_messages_append_only:
  "(chat_body E L s = (res, s') \<longrightarrow>
      length (heap s') = length (heap s)
      \<and> (\<forall>a. a \<noteq> messages L \<longrightarrow> heap s' ! a = heap s ! a)
      \<and> ((\<exists>e. res = Inl e \<and> heap s' = heap s)
         \<or> (\<exists>L'. res = Inr L' \<and> done_flag L' \<and> heap s' = heap s)
         \<or> (\<exists>resp c cs tcs results. res = Inr (L\<lparr>response := Some resp\<rparr>)
               \<and> choices resp = c # cs \<and> tool_calls (cmessage c) = Some tcs
               \<and> fst (handle_tool_call E tcs
                       (emit (ApiCall (chat_request (heap s ! messages L)) (Inr resp))
                          (s\<lparr>world := snd (completions_create E (chat_request (heap s ! messages L)) (world s))\<rparr>)))
                   = Inr results
               \<and> heap s' = (heap s)[messages L := heap s ! messages L @ MObj (cmessage c) # results])))
   \<and> (chat_while E n L s = (ex, L1, s1) \<longrightarrow>
        messages L1 = messages L \<and> prefix (heap s ! messages L) (heap s1 ! messages L)
        \<and> (\<forall>a. a \<noteq> messages L \<longrightarrow> heap s1 ! a = heap s ! a))
   \<and> (chat E n um h s = (out, s2) \<longrightarrow>
        (\<forall>a<length (heap s). heap s2 ! a = heap s ! a)
        \<and> (h < length (heap s) \<longrightarrow> length (heap s2) = Suc (length (heap s))
              \<and> prefix ([MDict [(''role'', PStr ''system''), (''content'', PStr (prompt_text (self_obj s)))]]
                         @ heap s ! h @ [MDict [(''role'', PStr ''user''), (''content'', PStr um)]])
                       (heap s2 ! length (heap s))))"
proof (intro conjI impI)
  assume b: "chat_body E L s = (res, s')"
  show "length (heap s') = length (heap s)"
    by (rule chat_body_inv(2) [OF b])
  show "\<forall>a. a \<noteq> messages L \<longrightarrow> heap s' ! a = heap s ! a"
    using chat_body_inv(3) [OF b] by blast
  from chat_body_char [OF b] obtain r w' where
    cc: "completions_create E (chat_request (heap s ! messages L)) (world s) = (r, w')" and
    cases: "(\<exists>e. res = Inl e \<and> heap s' = heap s)
            \<or> (\<exists>resp. r = Inr resp \<and> res = Inr (L\<lparr>response := Some resp, done_flag := True\<rparr>)
                  \<and> heap s' = heap s)
            \<or> (\<exists>resp c cs tcs results s2. r = Inr resp \<and> choices resp = c # cs
                  \<and> tool_calls (cmessage c) = Some tcs
                  \<and> handle_tool_call E tcs
                       (emit (ApiCall (chat_request (heap s ! messages L)) r) (s\<lparr>world := w'\<rparr>))
                     = (Inr results, s2)
                  \<and> res = Inr (L\<lparr>response := Some resp\<rparr>)
                  \<and> heap s' = (heap s)[messages L := heap s ! messages L @ MObj (cmessage c) # results])"
    by blast
  from cases show "(\<exists>e. res = Inl e \<and> heap s' = heap s)
         \<or> (\<exists>L'. res = Inr L' \<and> done_flag L' \<and> heap s' = heap s)
         \<or> (\<exists>resp c cs tcs results. res = Inr (L\<lparr>response := Some resp\<rparr>)
               \<and> choices resp = c # cs \<and> tool_calls (cmessage c) = Some tcs
               \<and> fst (handle_tool_call E tcs
                       (emit (ApiCall (chat_request (heap s ! messages L)) (Inr resp))
                          (s\<lparr>world := snd (completions_create E (chat_request (heap s ! messages L)) (world s))\<rparr>)))
                   = Inr results
               \<and> heap s' = (heap s)[messages L := heap s ! messages L @ MObj (cmessage c) # results])"
  proof (elim disjE exE conjE)
    fix e assume "res = Inl e" "heap s' = heap s"
    then show ?thesis by blast
  next
    fix resp assume "res = Inr (L\<lparr>response := Some resp, done_flag := True\<rparr>)" "heap s' = heap s"
    then show ?thesis by simp
  next
    fix resp c cs tcs results s2
    assume a: "r = Inr resp" "choices resp = c # cs" "tool_calls (cmessage c) = Some tcs"
      "handle_tool_call E tcs
         (emit (ApiCall (chat_request (heap s ! messages L)) r) (s\<lparr>world := w'\<rparr>)) = (Inr results, s2)"
      "res = Inr (L\<lparr>response := Some resp\<rparr>)"
      "heap s' = (heap s)[messages L := heap s ! messages L @ MObj (cmessage c) # results]"
    from a(4) have "fst (handle_tool_call E tcs
         (emit (ApiCall (chat_request (heap s ! messages L)) (Inr resp))
            (s\<lparr>world := snd (completions_create E (chat_request (heap s ! messages L)) (world s))\<rparr>)))
        = Inr results"
      by (simp add: cc a(1))
    with a show ?thesis by blast
  qed
next
  assume w: "chat_while E n L s = (ex, L1, s1)"
  from chat_while_inv [OF w]
  show "messages L1 = messages L" "prefix (heap s ! messages L) (heap s1 ! messages L)"
    "\<forall>a. a \<noteq> messages L \<longrightarrow> heap s1 ! a = heap s ! a"
    by blast+
next
  assume c: "chat E n um h s = (out, s2)"
  from chat_frame [OF c]
  show "\<forall>a<length (heap s). heap s2 ! a = heap s ! a" by blast
  assume "h < length (heap s)"
  with chat_frame [OF c]
  show "length (heap s2) = Suc (length (heap s))"
    "prefix ([MDict [(''role'', PStr ''system''), (''content'', PStr (prompt_text (self_obj s)))]]
                         @ heap s ! h @ [MDict [(''role'', PStr ''user''), (''content'', PStr um)]])
                       (heap s2 ! length (heap s))"
    by blast+
qed


theorem chat_messages_append_only_witness:
  "0 < length (heap (demo_state [tool_reply, plain_reply]))
   \<and> heap (snd (chat demo_env 3 ''Q'' 0 (demo_state [tool_reply, plain_reply]))) ! 0
       = heap (demo_state [tool_reply, plain_reply]) ! 0
   \<and> length (heap (snd (chat demo_env 3 ''Q'' 0 (demo_state [tool_reply, plain_reply])))) = 2
   \<and> drop 3 (heap (snd (chat demo_env 3 ''Q'' 0 (demo_state [tool_reply, plain_reply]))) ! 1)
       = [MObj \<lparr>content = None, tool_calls = Some [question_call]\<rparr>,
          tool_message ''{\"recorded\": \"ok\"}'' ''call_1'']
   \<and> length (heap (snd (chat_body demo_env \<lparr>messages = 0, done_flag = False, response = None\<rparr>
                         (demo_state [tool_reply])))) = 1
   \<and> prefix (heap (demo_state [tool_reply]) ! 0)
        (heap (snd (snd (chat_while demo_env 1 \<lparr>messages = 0, done_flag = False, response = None\<rparr>
                         (demo_state [tool_reply])))) ! 0)"
proof -
  let ?s = "demo_state [tool_reply, plain_reply]"
  let ?u = "demo_state [tool_reply]"
  let ?L = "\<lparr>messages = 0, done_flag = False, response = None\<rparr>"
  let ?c = "chat demo_env 3 ''Q'' 0 ?s"
  let ?b = "chat_body demo_env ?L ?u"
  let ?w = "chat_while demo_env 1 ?L ?u"
  have l0: "length (heap ?s) = 1" "length (heap ?u) = 1" "messages ?L = 0"
    by (simp_all add: demo_state_def)
  have hb: "?b = (fst ?b, snd ?b)" and hw: "?w = (fst ?w, fst (snd ?w), snd (snd ?w))"
    and hc: "?c = (fst ?c, snd ?c)"
    by simp_all
  note inst = chat_messages_append_only [where E = demo_env and L = ?L and s = ?u and n = 1
      and res = "fst ?b" and s' = "snd ?b" and ex = "fst ?w" and ?L1.0 = "fst (snd ?w)"
      and ?s1.0 = "snd (snd ?w)"]
  have inst_s: "(\<forall>a<length (heap ?s). heap (snd ?c) ! a = heap ?s ! a)
        \<and> (0 < length (heap ?s) \<longrightarrow> length (heap (snd ?c)) = Suc (length (heap ?s)))"
    using chat_messages_append_only [where E = demo_env and s = ?s and n = 3 and um = "''Q''"
      and h = 0 and out = "fst ?c" and ?s2.0 = "snd ?c"] hc
    by blast
  from inst hb have c1: "length (heap (snd ?b)) = length (heap ?u)" by blast
  from inst hw have c2: "prefix (heap ?u ! messages ?L) (heap (snd (snd ?w)) ! messages ?L)" by blast
  have c3: "drop 3 (heap (snd ?c) ! 1)
       = [MObj \<lparr>content = None, tool_calls = Some [question_call]\<rparr>,
          tool_message ''{\"recorded\": \"ok\"}'' ''call_1'']"
    by code_simp
  from inst_s l0 c1 c2 c3 show ?thesis by simp
qed

section \<open>The persona object and the tool schema\<close>

text \<open>
  Claim C6. The fields \<open>name\<close>, \<open>summary\<close> and \<open>bio\<close> are set by \<open>init_me\<close> (the name
  is the fixed literal, the biography is what the loop over the PDF pages collected,
  the summary is the content of the summary file), and \<open>system_prompt\<close>,
  \<open>handle_tool_call\<close> and \<open>chat\<close> all end with the persona object they started with.
\<close>

theorem persona_fields_fixed:
  "(init_me E = Inr m \<longrightarrow>
      name m = ''Ypatios Chaniotakos''
      \<and> (\<exists>pages. pdf_reader E (path_join (path_join (module_file_dir E) ''data'') ''chaniotakos.pdf'')
                    = Inr pages
                  \<and> read_pages pages [] = Inr (bio m))
      \<and> open_read E (path_join (path_join (module_file_dir E) ''data'') ''summary.txt'')
          = Inr (summary m))
   \<and> self_obj (snd (system_prompt s)) = self_obj s
   \<and> self_obj (snd (handle_tool_call E tcs s)) = self_obj s
   \<and> self_obj (snd (chat E n um h s)) = self_obj s"
proof (intro conjI impI)
  assume a: "init_me E = Inr m"
  then show "name m = ''Ypatios Chaniotakos''"
    by (auto simp: init_me_def split: option.splits sum.splits)
  from a show "\<exists>pages. pdf_reader E (path_join (path_join (module_file_dir E) ''data'') ''chaniotakos.pdf'')
                    = Inr pages
                  \<and> read_pages pages [] = Inr (bio m)"
    by (auto simp: init_me_def split: option.splits sum.splits)
  from a show "open_read E (path_join (path_join (module_file_dir E) ''data'') ''summary.txt'')
          = Inr (summary m)"
    by (auto simp: init_me_def split: option.splits sum.splits)
next
  show "self_obj (snd (system_prompt s)) = self_obj s"
    by (simp add: system_prompt_def)
  show "self_obj (snd (handle_tool_call E tcs s)) = self_obj s"
    using handle_tool_call_quiet [of s E tcs] by (simp add: quiet_step_def)
  show "self_obj (snd (chat E n um h s)) = self_obj s"
    using chat_frame [of E n um h s "fst (chat E n um h s)" "snd (chat E n um h s)"] by simp
qed

theorem persona_fields_fixed_witness:
  "init_me demo_env = Inr \<lparr>name = ''Ypatios Chaniotakos'', summary = ''A summary.'',
                            bio = ''Page one. Page two.''\<rparr>
   \<and> open_read demo_env (path_join (path_join (module_file_dir demo_env) ''data'') ''summary.txt'')
       = Inr ''A summary.''
   \<and> self_obj (snd (chat demo_env 3 ''Q'' 0 (demo_state [tool_reply, plain_reply])))
       = \<lparr>name = ''N'', summary = ''S'', bio = ''B''\<rparr>"
proof -
  let ?m = "\<lparr>name = ''Ypatios Chaniotakos'', summary = ''A summary.'', bio = ''Page one. Page two.''\<rparr>"
  have h: "init_me demo_env = Inr ?m"
    by code_simp
  note inst = persona_fields_fixed [of demo_env ?m "demo_state [tool_reply, plain_reply]" "[]"
      3 "''Q''" 0]
  from inst h have "open_read demo_env (path_join (path_join (module_file_dir demo_env) ''data'') ''summary.txt'')
       = Inr (summary ?m)"
    by blast
  moreover from inst have "self_obj (snd (chat demo_env 3 ''Q'' 0 (demo_state [tool_reply, plain_reply])))
       = self_obj (demo_state [tool_reply, plain_reply])"
    by blast
  ultimately show ?thesis
    using h by (simp add: demo_state_def)
qed

text \<open>
  Claim C7. Every chat-completion request that \<open>chat\<close> sends carries the list \<open>tools\<close>
  (and the model name). \<open>tools\<close> has exactly two entries of type function. The first
  describes \<^verbatim>\<open>record_user_details\<close>: properties \<^verbatim>\<open>email\<close>, \<^verbatim>\<open>name\<close>, \<^verbatim>\<open>notes\<close>, of which
  only \<^verbatim>\<open>email\<close> is required, and no additional properties. The second describes
  \<^verbatim>\<open>record_unknown_question\<close>: the one property \<^verbatim>\<open>question\<close>, required, and no additional
  properties.
\<close>

theorem chat_requests_carry_tool_schema:
  "(\<forall>req\<in>set (api_requests (new_events s (snd (chat E n um h s)))).
       req_tools req = tools \<and> req_model req = ''gpt-4o-mini'')
   \<and> tools = PList [PDict [(''type'', PStr ''function''), (''function'', record_user_details_json)],
                     PDict [(''type'', PStr ''function''), (''function'', record_unknown_question_json)]]
   \<and> dict_get record_user_details_json ''name'' = PStr ''record_user_details''
   \<and> dict_keys (dict_get (dict_get record_user_details_json ''parameters'') ''properties'')
       = [''email'', ''name'', ''notes'']
   \<and> dict_get (dict_get record_user_details_json ''parameters'') ''required'' = PList [PStr ''email'']
   \<and> dict_get (dict_get record_user_details_json ''parameters'') ''additionalProperties'' = PBool False
   \<and> dict_get record_unknown_question_json ''name'' = PStr ''record_unknown_question''
   \<and> dict_keys (dict_get (dict_get record_unknown_question_json ''parameters'') ''properties'')
       = [''question'']
   \<and> dict_get (dict_get record_unknown_question_json ''parameters'') ''required'' = PList [PStr ''question'']
   \<and> dict_get (dict_get record_unknown_question_json ''parameters'') ''additionalProperties'' = PBool False"
proof (intro conjI ballI)
  fix req
  assume "req \<in> set (api_requests (new_events s (snd (chat E n um h s))))"
  then obtain r where in_new: "ApiCall req r \<in> set (new_events s (snd (chat E n um h s)))"
    by (auto simp: set_api_requests)
  from chat_frame [of E n um h s "fst (chat E n um h s)" "snd (chat E n um h s)"]
  obtain evs where "trace (snd (chat E n um h s)) = trace s @ evs"
    and all: "\<forall>q x. ApiCall q x \<in> set evs \<longrightarrow> (\<exists>ms. q = chat_request ms)"
    by auto
  then have "new_events s (snd (chat E n um h s)) = evs"
    by (simp add: new_events_append)
  with in_new all obtain ms where "req = chat_request ms" by blast
  then show "req_tools req = tools" "req_model req = ''gpt-4o-mini''"
    by (simp_all add: chat_request_def)
qed (simp_all add: tools_def record_user_details_json_def record_unknown_question_json_def)

theorem chat_requests_carry_tool_schema_witness:
  "map req_tools (api_requests (new_events (demo_state [tool_reply, plain_reply])
            (snd (chat demo_env 3 ''Q'' 0 (demo_state [tool_reply, plain_reply])))))
     = [tools, tools]"
proof -
  let ?rs = "api_requests (new_events (demo_state [tool_reply, plain_reply])
            (snd (chat demo_env 3 ''Q'' 0 (demo_state [tool_reply, plain_reply]))))"
  have "length ?rs = 2"
    by code_simp
  then obtain a b where ab: "?rs = [a, b]"
    by (auto simp: length_Suc_conv numeral_2_eq_2)
  from chat_requests_carry_tool_schema [of "demo_state [tool_reply, plain_reply]" demo_env 3 "''Q''" 0]
  have "\<forall>req\<in>set ?rs. req_tools req = tools"
    by blast
  with ab show ?thesis by simp
qed

section \<open>Exceptions\<close>

lemma read_pages_raises: "read_pages (map Inr texts @ Inl e # rest) acc = Inl e"
  by (induction texts arbitrary: acc) simp_all

text \<open>
  Claim C8. An exception of the PDF reader (on opening the file or on a page), of the
  read of the summary file, or of the POST is the result of \<open>init_me\<close>, respectively of
  \<open>push\<close> and of the two tool functions that call it: none of them catches it, tries
  again or returns a value in its place.
\<close>

theorem failures_propagate:
  "(openai_new E = None
      \<and> pdf_reader E (path_join (path_join (module_file_dir E) ''data'') ''chaniotakos.pdf'') = Inl e
    \<longrightarrow> init_me E = Inl e)
   \<and> (openai_new E = None
      \<and> pdf_reader E (path_join (path_join (module_file_dir E) ''data'') ''chaniotakos.pdf'')
          = Inr (map Inr texts @ Inl e # rest)
    \<longrightarrow> init_me E = Inl e)
   \<and> (openai_new E = None
      \<and> pdf_reader E (path_join (path_join (module_file_dir E) ''data'') ''chaniotakos.pdf'')
          = Inr (map Inr texts)
      \<and> open_read E (path_join (path_join (module_file_dir E) ''data'') ''summary.txt'') = Inl e
    \<longrightarrow> init_me E = Inl e)
   \<and> (fst (requests_post E (pushover_url E)
             [(''token'', pushover_token E), (''user'', pushover_user E), (''message'', m)]
             (world s)) = Some e
    \<longrightarrow> fst (push E m s) = Inl e)
   \<and> (fst (push E (PStr (''Recording interest from '' @ py_str E uname @ '' with email ''
                          @ py_str E email @ '' and notes: '' @ py_str E unotes)) s) = Inl e
    \<longrightarrow> fst (record_user_details E email uname unotes s) = Inl e)
   \<and> (fst (push E (PStr (''Recording '' @ py_str E question @ '' asked that I couldn't answer'')) s) = Inl e
    \<longrightarrow> fst (record_unknown_question E question s) = Inl e)"
proof (intro conjI impI)
  assume "openai_new E = None
      \<and> pdf_reader E (path_join (path_join (module_file_dir E) ''data'') ''chaniotakos.pdf'') = Inl e"
  then show "init_me E = Inl e"
    by (simp add: init_me_def)
next
  assume "openai_new E = None
      \<and> pdf_reader E (path_join (path_join (module_file_dir E) ''data'') ''chaniotakos.pdf'')
          = Inr (map Inr texts @ Inl e # rest)"
  then show "init_me E = Inl e"
    by (simp add: init_me_def read_pages_raises)
next
  assume a: "openai_new E = None
      \<and> pdf_reader E (path_join (path_join (module_file_dir E) ''data'') ''chaniotakos.pdf'')
          = Inr (map Inr texts)
      \<and> open_read E (path_join (path_join (module_file_dir E) ''data'') ''summary.txt'') = Inl e"
  have "\<exists>b. read_pages (map Inr texts) acc = Inr b" for acc
    by (induction texts arbitrary: acc) simp_all
  then obtain b where "read_pages (map Inr texts) [] = Inr b" by blast
  with a show "init_me E = Inl e"
    by (simp add: init_me_def)
next
  assume "fst (requests_post E (pushover_url E)
             [(''token'', pushover_token E), (''user'', pushover_user E), (''message'', m)]
             (world s)) = Some e"
  then show "fst (push E m s) = Inl e"
    by (auto simp: push_def Let_def emit_def split: prod.splits option.splits)
next
  assume "fst (push E (PStr (''Recording interest from '' @ py_str E uname @ '' with email ''
                          @ py_str E email @ '' and notes: '' @ py_str E unotes)) s) = Inl e"
  then show "fst (record_user_details E email uname unotes s) = Inl e"
    by (auto simp: record_user_details_def split: prod.splits sum.splits)
next
  assume "fst (push E (PStr (''Recording '' @ py_str E question @ '' asked that I couldn't answer'')) s) = Inl e"
  then show "fst (record_unknown_question E question s) = Inl e"
    by (auto simp: record_unknown_question_def split: prod.splits sum.splits)
qed

theorem failures_propagate_witness:
  "init_me no_pdf_env = Inl (LibError ''FileNotFoundError'')
   \<and> init_me bad_page_env = Inl (LibError ''PdfReadError'')
   \<and> init_me no_summary_env = Inl (LibError ''FileNotFoundError'')
   \<and> fst (push offline_env (PStr ''x'') (demo_state [])) = Inl (LibError ''ConnectionError'')
   \<and> fst (record_user_details offline_env (PStr ''a@b.c'') (PStr ''Ann'') (PStr ''none'') (demo_state []))
       = Inl (LibError ''ConnectionError'')
   \<and> fst (record_unknown_question offline_env (PStr ''fees'') (demo_state []))
       = Inl (LibError ''ConnectionError'')"
proof -
  let ?pdf = "\<lambda>E::(response list) env. pdf_reader E (path_join (path_join (module_file_dir E) ''data'') ''chaniotakos.pdf'')"
  have h1: "openai_new no_pdf_env = None \<and> ?pdf no_pdf_env = Inl (LibError ''FileNotFoundError'')"
    by (simp add: no_pdf_env_def demo_env_def)
  have h2: "openai_new bad_page_env = None
      \<and> ?pdf bad_page_env = Inr (map Inr [''Page one. ''] @ Inl (LibError ''PdfReadError'') # [])"
    by (simp add: bad_page_env_def demo_env_def)
  have h3: "openai_new no_summary_env = None
      \<and> ?pdf no_summary_env = Inr (map Inr [''Page one. '', [], ''Page two.''])
      \<and> open_read no_summary_env (path_join (path_join (module_file_dir no_summary_env) ''data'') ''summary.txt'')
          = Inl (LibError ''FileNotFoundError'')"
    by (simp add: no_summary_env_def demo_env_def)
  have h4: "fst (requests_post offline_env (pushover_url offline_env)
             [(''token'', pushover_token offline_env), (''user'', pushover_user offline_env), (''message'', mm)]
             (world (demo_state []))) = Some (LibError ''ConnectionError'')" for mm
    by (simp add: offline_env_def demo_env_def)
  have c1: "init_me no_pdf_env = Inl (LibError ''FileNotFoundError'')"
    using failures_propagate [where E = no_pdf_env and e = "LibError ''FileNotFoundError''"] h1
    by blast
  have c2: "init_me bad_page_env = Inl (LibError ''PdfReadError'')"
    using failures_propagate [where E = bad_page_env and e = "LibError ''PdfReadError''"
        and texts = "[''Page one. '']" and rest = "[]"] h2
    by blast
  have c3: "init_me no_summary_env = Inl (LibError ''FileNotFoundError'')"
    using failures_propagate [where E = no_summary_env and e = "LibError ''FileNotFoundError''"
        and texts = "[''Page one. '', [], ''Page two.'']"] h3
    by blast
  have c4: "fst (push offline_env mm (demo_state [])) = Inl (LibError ''ConnectionError'')" for mm
    using failures_propagate [where E = offline_env and e = "LibError ''ConnectionError''"
        and m = mm and s = "demo_state []"] h4
    by blast
  have c5: "fst (record_user_details offline_env (PStr ''a@b.c'') (PStr ''Ann'') (PStr ''none'') (demo_state []))
       = Inl (LibError ''ConnectionError'')"
    using failures_propagate [where E = offline_env and e = "LibError ''ConnectionError''"
        and s = "demo_state []" and email = "PStr ''a@b.c''" and uname = "PStr ''Ann''"
        and unotes = "PStr ''none''"] c4
    by blast
  have c6: "fst (record_unknown_question offline_env (PStr ''fees'') (demo_state []))
       = Inl (LibError ''ConnectionError'')"
    using failures_propagate [where E = offline_env and e = "LibError ''ConnectionError''"
        and s = "demo_state []" and question = "PStr ''fees''"] c4
    by blast
  from c1 c2 c3 c4 c5 c6 show ?thesis by blast
qed

section \<open>The results of \<open>handle_tool_call\<close>\<close>

lemma handle_tool_call_loop_results:
  "handle_tool_call_loop E tcs acc s = (Inr results, s') \<Longrightarrow>
   \<exists>new. results = acc @ new \<and> length new = length tcs
     \<and> (\<forall>i<length tcs. \<forall>acc'. \<exists>result c.
           fst (dispatch E (tcs ! i) (snd (handle_tool_call_loop E (take i tcs) acc' s))) = Inr result
           \<and> json_dumps E result = Inr c
           \<and> new ! i = tool_message c (call_id (tcs ! i)))"
proof (induction tcs arbitrary: acc s results)
  case Nil
  then show ?case by simp
next
  case (Cons tc tcs)
  obtain x s1 where h1: "handle_one E tc s = (x, s1)"
    by (cases "handle_one E tc s")
  with Cons.prems obtain r where x: "x = Inr r"
    and rest: "handle_tool_call_loop E tcs (acc @ [r]) s1 = (Inr results, s')"
    by (cases x) auto
  from h1 x obtain result c where d: "dispatch E tc s = (Inr result, s1)"
    and c: "json_dumps E result = Inr c" and r: "r = tool_message c (call_id tc)"
    by (auto simp: handle_one_def split: prod.splits sum.splits)
  from Cons.IH [OF rest] obtain new where n:
    "results = (acc @ [r]) @ new" "length new = length tcs"
    "\<forall>i<length tcs. \<forall>acc'. \<exists>result c.
           fst (dispatch E (tcs ! i) (snd (handle_tool_call_loop E (take i tcs) acc' s1))) = Inr result
           \<and> json_dumps E result = Inr c
           \<and> new ! i = tool_message c (call_id (tcs ! i))"
    by blast
  have "\<forall>i<length (tc # tcs). \<forall>acc'. \<exists>result c.
           fst (dispatch E ((tc # tcs) ! i) (snd (handle_tool_call_loop E (take i (tc # tcs)) acc' s))) = Inr result
           \<and> json_dumps E result = Inr c
           \<and> (r # new) ! i = tool_message c (call_id ((tc # tcs) ! i))"
  proof (intro allI impI)
    fix i acc'
    assume i: "i < length (tc # tcs)"
    show "\<exists>result c.
           fst (dispatch E ((tc # tcs) ! i) (snd (handle_tool_call_loop E (take i (tc # tcs)) acc' s))) = Inr result
           \<and> json_dumps E result = Inr c
           \<and> (r # new) ! i = tool_message c (call_id ((tc # tcs) ! i))"
    proof (cases i)
      case 0
      with d c r show ?thesis by simp
    next
      case (Suc j)
      with i have j: "j < length tcs" by simp
      have "handle_tool_call_loop E (take i (tc # tcs)) acc' s
          = handle_tool_call_loop E (take j tcs) (acc' @ [r]) s1"
        by (simp add: Suc h1 x)
      with n(3) j Suc show ?thesis by simp
    qed
  qed
  with n(1,2) show ?case
    by (intro exI [of _ "r # new"]) simp
qed


text \<open>
  Claim C9. When \<open>handle_tool_call\<close> returns, the list it returns has one entry per tool
  call, in the order of the calls: entry \<open>i\<close> is the dict with role \<^verbatim>\<open>tool\<close>, the
  identifier of call \<open>i\<close> as \<^verbatim>\<open>tool_call_id\<close>, and as content the JSON text of the result
  that the dispatch of call \<open>i\<close> gave (in the state that the calls before it left).
\<close>

theorem handle_tool_call_results:
  "handle_tool_call E tcs s = (Inr results, s') \<Longrightarrow>
   length results = length tcs
   \<and> (\<forall>i<length tcs. \<exists>result c.
         fst (dispatch E (tcs ! i) (snd (handle_tool_call E (take i tcs) s))) = Inr result
         \<and> json_dumps E result = Inr c
         \<and> results ! i = MDict [(''role'', PStr ''tool''), (''content'', PStr c),
                                (''tool_call_id'', PStr (call_id (tcs ! i)))])"
proof -
  assume "handle_tool_call E tcs s = (Inr results, s')"
  then have "handle_tool_call_loop E tcs [] s = (Inr results, s')"
    by (simp add: handle_tool_call_def)
  from handle_tool_call_loop_results [OF this] obtain new where
    "results = new" "length new = length tcs"
    "\<forall>i<length tcs. \<forall>acc'. \<exists>result c.
           fst (dispatch E (tcs ! i) (snd (handle_tool_call_loop E (take i tcs) acc' s))) = Inr result
           \<and> json_dumps E result = Inr c
           \<and> new ! i = tool_message c (call_id (tcs ! i))"
    by auto
  then show ?thesis
    by (simp add: handle_tool_call_def tool_message_def)
qed

theorem handle_tool_call_results_witness:
  "fst (handle_tool_call demo_env [question_call, unknown_call] (demo_state []))
     = Inr [MDict [(''role'', PStr ''tool''), (''content'', PStr ''{\"recorded\": \"ok\"}''),
                   (''tool_call_id'', PStr ''call_1'')],
            MDict [(''role'', PStr ''tool''), (''content'', PStr ''{}''),
                   (''tool_call_id'', PStr ''call_2'')]]
   \<and> (\<exists>result c.
         fst (dispatch demo_env unknown_call
                (snd (handle_tool_call demo_env [question_call] (demo_state []))))
           = Inr result
         \<and> json_dumps demo_env result = Inr c
         \<and> c = ''{}'')"
proof -
  let ?tcs = "[question_call, unknown_call]"
  let ?h = "handle_tool_call demo_env ?tcs (demo_state [])"
  let ?rs = "[MDict [(''role'', PStr ''tool''), (''content'', PStr ''{\"recorded\": \"ok\"}''),
                   (''tool_call_id'', PStr ''call_1'')],
            MDict [(''role'', PStr ''tool''), (''content'', PStr ''{}''),
                   (''tool_call_id'', PStr ''call_2'')]]"
  have r: "fst ?h = Inr ?rs"
    by code_simp
  then have "?h = (Inr ?rs, snd ?h)"
    by (simp add: prod_eq_iff)
  from handle_tool_call_results [OF this]
  have "\<forall>i<length ?tcs. \<exists>result c.
         fst (dispatch demo_env (?tcs ! i) (snd (handle_tool_call demo_env (take i ?tcs) (demo_state []))))
           = Inr result
         \<and> json_dumps demo_env result = Inr c
         \<and> ?rs ! i = MDict [(''role'', PStr ''tool''), (''content'', PStr c),
                            (''tool_call_id'', PStr (call_id (?tcs ! i)))]"
    by blast
  then have "\<exists>result c.
         fst (dispatch demo_env (?tcs ! 1) (snd (handle_tool_call demo_env (take 1 ?tcs) (demo_state []))))
           = Inr result
         \<and> json_dumps demo_env result = Inr c
         \<and> ?rs ! 1 = MDict [(''role'', PStr ''tool''), (''content'', PStr c),
                            (''tool_call_id'', PStr (call_id (?tcs ! 1)))]"
    by (rule allE [of _ 1]) simp
  then have "\<exists>result c.
         fst (dispatch demo_env unknown_call
                (snd (handle_tool_call demo_env [question_call] (demo_state []))))
           = Inr result
         \<and> json_dumps demo_env result = Inr c
         \<and> c = ''{}''"
    by auto
  with r show ?thesis by blast
qed

section \<open>Tool names that are not tools\<close>

text \<open>
  What the lookup \<^verbatim>\<open>globals().get(tool_name)\<close> does with the two tool names, with a name
  that is bound nowhere, and with the name of a module-level list.
\<close>

lemma recognized_names_resolve:
  "globals_get E ''record_user_details'' = PFunc ''record_user_details''"
  "globals_get E ''record_unknown_question'' = PFunc ''record_unknown_question''"
  by (simp_all add: globals_get_def module_globals_def)

lemma dispatch_recognized:
  assumes "json_loads E (function_arguments tc) = Inr (PDict kwargs)"
  shows "function_name tc = ''record_user_details'' \<Longrightarrow>
           dispatch E tc s = call_function E ''record_user_details'' kwargs
             (emit (Printed ''Tool called: record_user_details'') s)"
    and "function_name tc = ''record_unknown_question'' \<Longrightarrow>
           dispatch E tc s = call_function E ''record_unknown_question'' kwargs
             (emit (Printed ''Tool called: record_unknown_question'') s)"
  using assms
  by (simp_all add: dispatch_def Let_def recognized_names_resolve call_value_def)

lemma dispatch_unbound_name:
  assumes "json_loads E (function_arguments tc) = Inr arguments"
    and "\<not> truthy (globals_get E (function_name tc))"
  shows "dispatch E tc s = (Inr (PDict []), emit (Printed (''Tool called: '' @ function_name tc)) s)"
  using assms by (simp add: dispatch_def Let_def)

lemma dispatch_global_list:
  assumes "json_loads E (function_arguments tc) = Inr arguments"
    and "function_name tc = ''tools''"
  shows "dispatch E tc s = (Inl TypeError, emit (Printed ''Tool called: tools'') s)"
proof -
  have g: "globals_get E ''tools'' = tools"
    by (simp add: globals_get_def module_globals_def)
  have "call_value E tools arguments t = (Inl TypeError, t)" for t :: "'a state"
    by (cases arguments) (simp_all add: call_value_def tools_def)
  with assms g show ?thesis
    by (simp add: dispatch_def Let_def tools_def)
qed

text \<open>
  Claim C2 asks that a tool name which does not resolve to a function of the module
  give the empty object and no exception. The name \<^verbatim>\<open>tools\<close> resolves to the module's
  list of tool descriptions, which is not empty and so passes the test \<^verbatim>\<open>if tool\<close>;
  calling it raises \<^verbatim>\<open>TypeError\<close>, and \<open>handle_tool_call\<close> ends with that exception.
  Malformed arguments raise as well, whatever the name, since they are parsed before
  the lookup.
\<close>

theorem handle_tool_call_raises_on_global_list:
  "fst (handle_tool_call demo_env
          [\<lparr>call_id = ''call_3'', function_name = ''tools'', function_arguments = ''{}''\<rparr>]
          (demo_state [])) = Inl TypeError
   \<and> fst (handle_tool_call demo_env
          [\<lparr>call_id = ''call_4'', function_name = ''lookup_weather'', function_arguments = ''{''\<rparr>]
          (demo_state [])) = Inl (LibError ''JSONDecodeError'')
   \<and> fst (handle_tool_call demo_env
          [\<lparr>call_id = ''call_2'', function_name = ''lookup_weather'', function_arguments = ''{}''\<rparr>]
          (demo_state [])) = Inr [tool_message ''{}'' ''call_2'']"
proof -
  let ?tc = "\<lparr>call_id = ''call_3'', function_name = ''tools'', function_arguments = ''{}''\<rparr>"
  have "json_loads demo_env (function_arguments ?tc) = Inr (PDict [])"
    by (simp add: demo_env_def demo_loads_def)
  from dispatch_global_list [OF this, of "demo_state []"]
  have "fst (handle_tool_call demo_env [?tc] (demo_state [])) = Inl TypeError"
    by (simp add: handle_tool_call_def handle_one_def)
  moreover have "fst (handle_tool_call demo_env
          [\<lparr>call_id = ''call_4'', function_name = ''lookup_weather'', function_arguments = ''{''\<rparr>]
          (demo_state [])) = Inl (LibError ''JSONDecodeError'')"
    by code_simp
  moreover have "fst (handle_tool_call demo_env
          [\<lparr>call_id = ''call_2'', function_name = ''lookup_weather'', function_arguments = ''{}''\<rparr>]
          (demo_state [])) = Inr [tool_message ''{}'' ''call_2'']"
    by code_simp
  ultimately show ?thesis by blast
qed

section \<open>The two loops\<close>















section \<open>A chat that never returns\<close>

lemma eager_handle:
  "fst (handle_tool_call eager_env [question_call] s) = Inr [tool_message ''{\"recorded\": \"ok\"}'' ''call_1'']"
  by (simp add: handle_tool_call_def handle_one_def dispatch_def Let_def eager_env_def demo_env_def
      demo_loads_def demo_dumps_def question_call_def globals_get_def module_globals_def
      call_value_def call_function_def known_keys_def record_unknown_question_def push_def
      split: prod.splits)

lemma eager_body:
  "\<exists>s'. chat_body eager_env L s = (Inr (L\<lparr>response := Some tool_reply\<rparr>), s')"
proof -
  let ?s1 = "emit (ApiCall (chat_request (heap s ! messages L)) (Inr tool_reply)) (s\<lparr>world := world s\<rparr>)"
  obtain s2 where "handle_tool_call eager_env [question_call] ?s1
      = (Inr [tool_message ''{\"recorded\": \"ok\"}'' ''call_1''], s2)"
    using eager_handle [of ?s1] by (cases "handle_tool_call eager_env [question_call] ?s1") simp
  then show ?thesis
    by (simp add: chat_body_def Let_def eager_env_def demo_env_def tool_reply_def)
qed

text \<open>With a model that always asks for a tool, the loop is still running after any number of iterations.\<close>

lemma eager_loop_runs:
  "\<not> done_flag L \<Longrightarrow> fst (chat_while eager_env n L s) = OutOfFuel"
proof (induction n arbitrary: L s)
  case 0
  show ?case by simp
next
  case (Suc n)
  from eager_body [of L s] obtain s' where
    b: "chat_body eager_env L s = (Inr (L\<lparr>response := Some tool_reply\<rparr>), s')" by blast
  from Suc.prems have "\<not> done_flag (L\<lparr>response := Some tool_reply\<rparr>)" by simp
  from Suc.IH [OF this, of s'] Suc.prems b show ?case by simp
qed

lemma eager_chat_runs: "fst (chat eager_env n um 0 (demo_state ws)) = Running"
proof -
  let ?c = "chat eager_env n um 0 (demo_state ws)"
  have c: "?c = (fst ?c, snd ?c)" by simp
  have len: "0 < length (heap (demo_state ws))" by (simp add: demo_state_def)
  from c show ?thesis
  proof (cases rule: chat_cases)
    case no_list
    with len show ?thesis by simp
  next
    case (run ex L')
    from run(2) eager_loop_runs [of "\<lparr>messages = length (heap (demo_state ws)), done_flag = False,
        response = None\<rparr>" n] have "ex = OutOfFuel"
      by (metis fst_conv locals.select_convs(2))
    with run(3) show ?thesis by simp
  qed
qed

end
